theory Spec2Isabelle
  imports Main
begin

section \<open>The MCP terminal server (server.py)\<close>

text \<open>
  The program is one Python module. Its own code is the module body (workspace and
  logging set-up), the two tools \<^verbatim>\<open>run_command\<close> and \<^verbatim>\<open>hello_world\<close>, the wiring of
  the SSE transport and the \<^verbatim>\<open>__main__\<close> block. Everything it calls (\<^verbatim>\<open>os\<close>,
  \<^verbatim>\<open>subprocess\<close>, \<^verbatim>\<open>logging\<close>, \<^verbatim>\<open>argparse\<close>) is the environment: it is taken as a
  parameter of the model, and its effects are threaded through an explicit state. The
  \<^verbatim>\<open>print\<close> of line 14 and the time stamps of the log lines are left out. The tool
  registry, the sessions and the protocol loop are objects of the \<^verbatim>\<open>mcp\<close>, \<^verbatim>\<open>starlette\<close>
  and \<^verbatim>\<open>uvicorn\<close> packages; the module only constructs them, and they are not modelled.
\<close>

subsection \<open>Python values and exceptions\<close>

text \<open>The arguments the program passes to a logging call: strings and integers.\<close>

datatype py_value = PyStr string | PyInt int

text \<open>
  Classes of the exceptions that the library calls of the program raise. In Python's
  built-in hierarchy \<^verbatim>\<open>KeyboardInterrupt\<close>, \<^verbatim>\<open>SystemExit\<close> and \<^verbatim>\<open>GeneratorExit\<close> derive
  from \<^verbatim>\<open>BaseException\<close> directly; the other classes listed derive from \<^verbatim>\<open>Exception\<close>
  (a subclass such as \<^verbatim>\<open>FileNotFoundError\<close> counts as its listed base).
\<close>

datatype exc_class =
    OSError | ValueError | TypeError | UnicodeDecodeError | SubprocessError | MemoryError
  | KeyboardInterrupt | SystemExit | GeneratorExit

fun issubclass_Exception :: "exc_class \<Rightarrow> bool" where
  "issubclass_Exception KeyboardInterrupt = False"
| "issubclass_Exception SystemExit = False"
| "issubclass_Exception GeneratorExit = False"
| "issubclass_Exception _ = True"

text \<open>An exception object: its class and what \<^verbatim>\<open>str(e)\<close> gives.\<close>

record py_exception =
  exc_class :: exc_class
  exc_str :: string

text \<open>Python's \<^verbatim>\<open>a or b\<close> on strings: a string is true when it is not empty.\<close>

definition py_or :: "string \<Rightarrow> string \<Rightarrow> string" where
  "py_or a b = (if a \<noteq> [] then a else b)"

subsection \<open>Logging\<close>

datatype level = DEBUG | INFO | WARNING | ERROR

fun levelno :: "level \<Rightarrow> nat" where
  "levelno DEBUG = 10"
| "levelno INFO = 20"
| "levelno WARNING = 30"
| "levelno ERROR = 40"

text \<open>
  A record as the logging module builds it: level, logger name, the format string
  and its arguments (kept apart, as \<^verbatim>\<open>LogRecord.msg\<close> and \<^verbatim>\<open>LogRecord.args\<close> are), and
  the exception attached by \<^verbatim>\<open>logger.exception\<close>.
\<close>

record log_record =
  levelname :: level
  logger_name :: string
  msg :: string
  log_args :: "py_value list"
  exc_info :: "py_exception option"

text \<open>
  The state of the process: the world outside it (file system, child processes), of
  any type \<open>'w\<close>, and the records the two handlers (file and stream) have emitted.
\<close>

record 'w proc =
  world :: 'w
  emitted :: "log_record list"

text \<open>
  \<^verbatim>\<open>logging.basicConfig(level=logging.INFO, ...)\<close>: the root level is \<^verbatim>\<open>INFO\<close>, and the
  module's logger, which has no level of its own, inherits it.
\<close>

definition root_level :: level where
  "root_level = INFO"

definition isEnabledFor :: "level \<Rightarrow> bool" where
  "isEnabledFor lv = (levelno root_level \<le> levelno lv)"

definition logger_log ::
  "level \<Rightarrow> string \<Rightarrow> string \<Rightarrow> py_value list \<Rightarrow> py_exception option \<Rightarrow> 'w proc \<Rightarrow> 'w proc" where
  "logger_log lv nm m as ex s =
     (if isEnabledFor lv
      then s\<lparr>emitted := emitted s @
              [\<lparr>levelname = lv, logger_name = nm, msg = m, log_args = as, exc_info = ex\<rparr>]\<rparr>
      else s)"

definition logger_debug :: "string \<Rightarrow> string \<Rightarrow> py_value list \<Rightarrow> 'w proc \<Rightarrow> 'w proc" where
  "logger_debug nm m as s = logger_log DEBUG nm m as None s"

definition logger_info :: "string \<Rightarrow> string \<Rightarrow> py_value list \<Rightarrow> 'w proc \<Rightarrow> 'w proc" where
  "logger_info nm m as s = logger_log INFO nm m as None s"

definition logger_warning :: "string \<Rightarrow> string \<Rightarrow> py_value list \<Rightarrow> 'w proc \<Rightarrow> 'w proc" where
  "logger_warning nm m as s = logger_log WARNING nm m as None s"

text \<open>\<^verbatim>\<open>logger.exception(msg)\<close> logs at \<^verbatim>\<open>ERROR\<close> with the exception being handled.\<close>

definition logger_exception :: "string \<Rightarrow> string \<Rightarrow> py_exception \<Rightarrow> 'w proc \<Rightarrow> 'w proc" where
  "logger_exception nm m e s = logger_log ERROR nm m [] (Some e) s"

subsection \<open>The environment\<close>

text \<open>
  The keyword arguments of the one \<^verbatim>\<open>subprocess.run\<close> call of the program (\<^verbatim>\<open>text\<close> is
  named \<open>text_mode\<close> here), and the \<^verbatim>\<open>CompletedProcess\<close> it returns. With
  \<^verbatim>\<open>capture_output=True, text=True\<close> both streams are strings.
\<close>

record run_args =
  cmd :: string
  shell :: bool
  cwd :: string
  capture_output :: bool
  text_mode :: bool

record completed_process =
  returncode :: int
  stdout :: string
  stderr :: string

text \<open>
  The library functions the program calls. Each one that can raise returns a sum, with
  the exception on the left; each one that touches the world takes it and returns it.
  \<open>makedirs\<close> is \<^verbatim>\<open>os.makedirs(p, exist_ok=True)\<close>, \<open>open_log_file\<close> is the opening of the
  file by \<^verbatim>\<open>logging.FileHandler(p, encoding="utf-8")\<close>, \<open>isdir\<close> is \<^verbatim>\<open>os.path.isdir\<close>
  (the program never calls it; it is what the claims about the workspace speak of).
\<close>

record 'w os_env =
  expanduser :: "string \<Rightarrow> string"
  abspath :: "string \<Rightarrow> py_exception + string"
  path_join :: "string \<Rightarrow> string \<Rightarrow> string"
  makedirs :: "string \<Rightarrow> 'w \<Rightarrow> py_exception + 'w"
  open_log_file :: "string \<Rightarrow> 'w \<Rightarrow> py_exception + 'w"
  isdir :: "string \<Rightarrow> 'w \<Rightarrow> bool"
  subprocess_run :: "run_args \<Rightarrow> 'w \<Rightarrow> (py_exception + completed_process) \<times> 'w"

subsection \<open>The module body: workspace and logging\<close>

text \<open>The module globals that the tools read.\<close>

record config =
  DEFAULT_WORKSPACE :: string
  LOG_DIR :: string
  LOG_FILE :: string


subsection \<open>The tools\<close>

text \<open>
  \<^verbatim>\<open>run_command\<close>, lines 51 to 82. The result is \<open>Inr\<close> the returned string, or \<open>Inl\<close>
  the exception that leaves the function. \<^verbatim>\<open>except Exception\<close> handles the instances
  of \<^verbatim>\<open>Exception\<close> only; any other exception passes through.
\<close>

definition run_command ::
  "'w os_env \<Rightarrow> config \<Rightarrow> string \<Rightarrow> 'w proc \<Rightarrow> (py_exception + string) \<times> 'w proc" where
  "run_command os cfg command s0 =
     (let logger = LOG_FILE cfg;
          s1 = logger_info logger ''Received command: %s'' [PyStr command] s0;
          s2 = logger_debug logger ''Executing in workspace: %s'' [PyStr (DEFAULT_WORKSPACE cfg)] s1;
          (r, w) = subprocess_run os
                     \<lparr>cmd = command, shell = True, cwd = DEFAULT_WORKSPACE cfg,
                      capture_output = True, text_mode = True\<rparr> (world s2);
          s3 = s2\<lparr>world := w\<rparr>
      in case r of
           Inr result \<Rightarrow>
             (let s4 = logger_info logger ''Command finished | returncode=%s''
                         [PyInt (returncode result)] s3;
                  s5 = (if stdout result \<noteq> []
                        then logger_debug logger ''STDOUT:\<newline>%s'' [PyStr (stdout result)] s4
                        else s4);
                  s6 = (if stderr result \<noteq> []
                        then logger_warning logger ''STDERR:\<newline>%s'' [PyStr (stderr result)] s5
                        else s5)
              in (Inr (py_or (stdout result) (py_or (stderr result) '''')), s6))
         | Inl e \<Rightarrow>
             (if issubclass_Exception (exc_class e)
              then (Inr (exc_str e), logger_exception logger ''Command execution failed'' e s3)
              else (Inl e, s3)))"

text \<open>\<^verbatim>\<open>hello_world\<close>, lines 85 to 90: no parameter, one log line, a constant.\<close>

definition hello_world :: "config \<Rightarrow> 'w proc \<Rightarrow> (py_exception + string) \<times> 'w proc" where
  "hello_world cfg s0 =
     (let s1 = logger_info (LOG_FILE cfg) ''hello_world tool invoked'' [] s0
      in (Inr ''Hello World'', s1))"


text \<open>
  The tools are called by the \<^verbatim>\<open>mcp\<close> library, with which \<^verbatim>\<open>@mcp.tool()\<close> registers them.
  An invocation carries a JSON object of named arguments. The library validates it
  against the signature of the function and calls the function with the keyword
  arguments that the validation gives. The validation is the library's and a parameter
  here: \<open>validate_args\<close> takes the names of the declared parameters and the arguments
  supplied, and gives the keyword arguments of the call, or the exception of a failed
  validation. The call is Python's: \<^verbatim>\<open>hello_world\<close> declares no parameter (line 85), so
  a keyword argument in its call is a \<^verbatim>\<open>TypeError\<close> and the body does not run.
\<close>

type_synonym arguments = "(string \<times> py_value) list"

definition hello_world_call ::
  "config \<Rightarrow> arguments \<Rightarrow> 'w proc \<Rightarrow> (py_exception + string) \<times> 'w proc" where
  "hello_world_call cfg kwargs s =
     (case kwargs of
        [] \<Rightarrow> hello_world cfg s
      | (k, v) # _ \<Rightarrow>
          (Inl \<lparr>exc_class = TypeError,
                exc_str = ''hello_world() got an unexpected keyword argument ''
                          @ [CHR 0x27] @ k @ [CHR 0x27]\<rparr>, s))"


text \<open>
  What \<^verbatim>\<open>subprocess.run\<close> gives for the call that \<^verbatim>\<open>run_command\<close> makes in state \<open>s\<close>:
  \<open>Inr\<close> the completed process, or \<open>Inl\<close> the exception raised.
\<close>

abbreviation subprocess_outcome ::
  "'w os_env \<Rightarrow> config \<Rightarrow> string \<Rightarrow> 'w proc \<Rightarrow> py_exception + completed_process" where
  "subprocess_outcome os cfg command s \<equiv>
     fst (subprocess_run os
            \<lparr>cmd = command, shell = True, cwd = DEFAULT_WORKSPACE cfg,
             capture_output = True, text_mode = True\<rparr> (world s))"

subsection \<open>The script: command line and server start\<close>

text \<open>
  Lines 146 to 149 build a parser with two optional arguments: \<^verbatim>\<open>--host\<close> (default
  \<^verbatim>\<open>'0.0.0.0'\<close>) and \<^verbatim>\<open>--port\<close> (\<^verbatim>\<open>type=int\<close>, default \<^verbatim>\<open>8081\<close>), next to the \<^verbatim>\<open>--help\<close>
  that argparse adds. The command line is taken as argparse has split it, into
  occurrences of options, however each was spelled (\<^verbatim>\<open>--host V\<close>, \<^verbatim>\<open>--host=V\<close>, an
  unambiguous prefix).
\<close>

record namespace =
  host :: string
  port :: int

datatype cli_option =
    Opt_host string | Opt_port string | Opt_help | Opt_missing_value | Unrecognized string

text \<open>\<^verbatim>\<open>parser.exit(code)\<close> raises \<^verbatim>\<open>SystemExit(code)\<close>.\<close>

definition SystemExit_of :: "string \<Rightarrow> py_exception" where
  "SystemExit_of code = \<lparr>exc_class = SystemExit, exc_str = code\<rparr>"

text \<open>
  \<^verbatim>\<open>parser.parse_args()\<close> for this parser, as the documentation of argparse describes
  it (the module builds the parser; parsing is the library's). Options are handled from
  left to right, a later occurrence overwriting an earlier one. The port goes through \<open>py_int\<close>, which
  is Python's \<^verbatim>\<open>int\<close> on strings (\<open>None\<close> where it raises \<^verbatim>\<open>ValueError\<close>), a parameter of
  the model. A value that is not an integer and an option without its value are usage
  errors (exit code 2) where they stand; \<^verbatim>\<open>--help\<close> exits with code 0 where it stands;
  arguments that are not recognised are collected and reported at the end.
\<close>

fun parse_args ::
  "(string \<Rightarrow> int option) \<Rightarrow> cli_option list \<Rightarrow> namespace \<Rightarrow> bool \<Rightarrow> py_exception + namespace" where
  "parse_args py_int [] ns extras = (if extras then Inl (SystemExit_of ''2'') else Inr ns)"
| "parse_args py_int (Opt_host v # rest) ns extras =
     parse_args py_int rest (ns\<lparr>host := v\<rparr>) extras"
| "parse_args py_int (Opt_port v # rest) ns extras =
     (case py_int v of
        None \<Rightarrow> Inl (SystemExit_of ''2'')
      | Some n \<Rightarrow> parse_args py_int rest (ns\<lparr>port := n\<rparr>) extras)"
| "parse_args py_int (Opt_help # rest) ns extras = Inl (SystemExit_of ''0'')"
| "parse_args py_int (Opt_missing_value # rest) ns extras = Inl (SystemExit_of ''2'')"
| "parse_args py_int (Unrecognized a # rest) ns extras = parse_args py_int rest ns True"

text \<open>
  The \<^verbatim>\<open>__main__\<close> block, lines 139 to 155: it ends in
  \<^verbatim>\<open>uvicorn.run(starlette_app, host=args.host, port=args.port)\<close>, with the application
  built in debug mode. The result is that call, or the exception that ends the script.
\<close>

record uvicorn_run =
  app_debug :: bool
  bind_host :: string
  bind_port :: int

definition main_block ::
  "(string \<Rightarrow> int option) \<Rightarrow> cli_option list \<Rightarrow> py_exception + uvicorn_run" where
  "main_block py_int argv =
     (case parse_args py_int argv \<lparr>host = ''0.0.0.0'', port = 8081\<rparr> False of
        Inl e \<Rightarrow> Inl e
      | Inr args \<Rightarrow> Inr \<lparr>app_debug = True, bind_host = host args, bind_port = port args\<rparr>)"

subsection \<open>Paths\<close>

text \<open>\<^verbatim>\<open>os.path.isabs\<close> on POSIX: the path starts with a slash.\<close>

definition isabs :: "string \<Rightarrow> bool" where
  "isabs p = (take 1 p = ''/'')"

subsection \<open>A concrete environment\<close>

text \<open>
  A small environment on which the model runs: the home directory is \<^verbatim>\<open>/home/user\<close>, the
  current directory \<^verbatim>\<open>/srv\<close>, the world is the list of the directories that exist and
  the list of the calls of \<^verbatim>\<open>subprocess.run\<close> so far, and every call has the outcome
  given.
\<close>

record sim_world =
  dirs :: "string list"
  spawned :: "run_args list"

definition sim_env :: "(py_exception + completed_process) \<Rightarrow> sim_world os_env" where
  "sim_env outcome =
     \<lparr>expanduser = (\<lambda>p. if take 1 p = ''~'' then ''/home/user'' @ drop 1 p else p),
      abspath = (\<lambda>p. Inr (if take 1 p = ''/'' then p else ''/srv/'' @ p)),
      path_join = (\<lambda>a b. a @ ''/'' @ b),
      makedirs = (\<lambda>p w. Inr (w\<lparr>dirs := p # dirs w\<rparr>)),
      open_log_file = (\<lambda>p w. Inr w),
      isdir = (\<lambda>p w. p \<in> set (dirs w)),
      subprocess_run = (\<lambda>ra w. (outcome, w\<lparr>spawned := spawned w @ [ra]\<rparr>))\<rparr>"

text \<open>The configuration and the state that the module body reaches there.\<close>

definition sim_config :: config where
  "sim_config =
     \<lparr>DEFAULT_WORKSPACE = ''/home/user/mcp'', LOG_DIR = ''/home/user/mcp/logs'',
      LOG_FILE = ''/home/user/mcp/logs/mcp_terminal.log''\<rparr>"

definition sim_started :: "sim_world proc" where
  "sim_started =
     \<lparr>world = \<lparr>dirs = [''/home/user/mcp'', ''/home/user/mcp/logs''], spawned = []\<rparr>,
      emitted =
        [\<lparr>levelname = INFO, logger_name = ''/home/user/mcp/logs/mcp_terminal.log'',
          msg = ''MCP Terminal starting'', log_args = [], exc_info = None\<rparr>,
         \<lparr>levelname = INFO, logger_name = ''/home/user/mcp/logs/mcp_terminal.log'',
          msg = ''Default workspace set to: %s'', log_args = [PyStr ''/home/user/mcp''],
          exc_info = None\<rparr>]\<rparr>"

text \<open>
  The same environment with a shell that knows one command: \<^verbatim>\<open>rm -rf ~/mcp\<close> removes the
  workspace directory and what is below it. As \<^verbatim>\<open>subprocess.run\<close> does, it raises
  \<^verbatim>\<open>FileNotFoundError\<close> (an \<^verbatim>\<open>OSError\<close>) when the directory given as \<^verbatim>\<open>cwd\<close> does not exist.
\<close>

definition shell_env :: "sim_world os_env" where
  "shell_env =
     (sim_env (Inr \<lparr>returncode = 0, stdout = [], stderr = []\<rparr>))
       \<lparr>subprocess_run :=
          (\<lambda>ra w.
             if cwd ra \<notin> set (dirs w)
             then (Inl \<lparr>exc_class = OSError,
                        exc_str = ''[Errno 2] No such file or directory: ''
                                  @ [CHR 0x27] @ cwd ra @ [CHR 0x27]\<rparr>,
                   w\<lparr>spawned := spawned w @ [ra]\<rparr>)
             else if cmd ra = ''rm -rf ~/mcp''
             then (Inr \<lparr>returncode = 0, stdout = [], stderr = []\<rparr>,
                   w\<lparr>dirs := filter (\<lambda>d. take 14 d \<noteq> ''/home/user/mcp'') (dirs w),
                     spawned := spawned w @ [ra]\<rparr>)
             else (Inr \<lparr>returncode = 0, stdout = [], stderr = []\<rparr>,
                   w\<lparr>spawned := spawned w @ [ra]\<rparr>))\<rparr>"


text \<open>
  \<^verbatim>\<open>int\<close> on a string of decimal digits, for concrete command lines. (Python's \<^verbatim>\<open>int\<close>
  accepts more: a sign, blanks around, underscores between digits.)
\<close>

fun position :: "char \<Rightarrow> string \<Rightarrow> int \<Rightarrow> int option" where
  "position c [] k = None"
| "position c (d # ds) k = (if c = d then Some k else position c ds (k + 1))"

definition digit_value :: "char \<Rightarrow> int option" where
  "digit_value c = position c ''0123456789'' 0"

fun decimal_from :: "int \<Rightarrow> string \<Rightarrow> int option" where
  "decimal_from acc [] = Some acc"
| "decimal_from acc (c # cs) =
     (case digit_value c of None \<Rightarrow> None | Some d \<Rightarrow> decimal_from (10 * acc + d) cs)"

definition int_of_digits :: "string \<Rightarrow> int option" where
  "int_of_digits s = (if s = [] then None else decimal_from 0 s)"

section \<open>Properties\<close>

subsection \<open>Logging leaves the world alone\<close>

lemma world_logger_log [simp]: "world (logger_log lv nm m as ex s) = world s"
  by (simp add: logger_log_def)

lemma isEnabledFor_levels [simp]:
  "isEnabledFor INFO" "isEnabledFor WARNING" "isEnabledFor ERROR" "\<not> isEnabledFor DEBUG"
  by (simp_all add: isEnabledFor_def root_level_def)

lemmas logger_defs =
  logger_debug_def logger_info_def logger_warning_def logger_exception_def logger_log_def

subsection \<open>What the module body establishes\<close>




subsection \<open>The tools seen from their callers\<close>


text \<open>The function itself accepts no argument: a call that passes one raises.\<close>

lemma hello_world_call_unexpected_argument:
  "fst (hello_world_call cfg ((k, v) # kwargs) s) =
     Inl \<lparr>exc_class = TypeError,
          exc_str = ''hello_world() got an unexpected keyword argument ''
                    @ [CHR 0x27] @ k @ [CHR 0x27]\<rparr>"
  by (simp add: hello_world_call_def)

text \<open>
  An exception of \<^verbatim>\<open>subprocess.run\<close> that is not an instance of \<^verbatim>\<open>Exception\<close> is not handled:
  it leaves \<^verbatim>\<open>run_command\<close>.
\<close>

lemma run_command_BaseException_propagates:
  assumes "subprocess_outcome os cfg command s = Inl e"
      and "\<not> issubclass_Exception (exc_class e)"
  shows "fst (run_command os cfg command s) = Inl e"
  using assms
  by (auto simp: run_command_def Let_def logger_defs split: prod.splits)

subsection \<open>The concrete environments meet the contracts of the library\<close>


lemma shell_env_contracts:
  "\<forall>p q. abspath shell_env p = Inr q \<longrightarrow> isabs q"
  "\<forall>p w w'. makedirs shell_env p w = Inr w' \<longrightarrow> isdir shell_env p w'"
  by (auto simp: shell_env_def sim_env_def isabs_def)

subsection \<open>The claims\<close>

text \<open>
  C1. Whenever \<^verbatim>\<open>subprocess.run\<close> returns, \<^verbatim>\<open>run_command\<close> returns the captured standard
  output if it is not empty, otherwise the captured standard error if that is not
  empty, otherwise the empty string. When both are non-empty the result is exactly the
  standard output, and the standard error is in the log, as a \<^verbatim>\<open>WARNING\<close> record.
\<close>

theorem run_command_stdout_else_stderr:
  assumes "subprocess_outcome os cfg command s = Inr result"
  shows "fst (run_command os cfg command s) =
           Inr (if stdout result \<noteq> [] then stdout result
                else if stderr result \<noteq> [] then stderr result else [])
         \<and> (stdout result \<noteq> [] \<and> stderr result \<noteq> [] \<longrightarrow>
              fst (run_command os cfg command s) = Inr (stdout result)
              \<and> \<lparr>levelname = WARNING, logger_name = LOG_FILE cfg, msg = ''STDERR:\<newline>%s'',
                  log_args = [PyStr (stderr result)], exc_info = None\<rparr>
                 \<in> set (emitted (snd (run_command os cfg command s))))"
  using assms
  by (auto simp: run_command_def Let_def logger_defs py_or_def split: prod.splits)

theorem run_command_stdout_else_stderr_witness:
  "subprocess_outcome (sim_env (Inr \<lparr>returncode = 1, stdout = ''out'', stderr = ''warn''\<rparr>))
       sim_config ''ls; ls /nowhere'' sim_started
     = Inr \<lparr>returncode = 1, stdout = ''out'', stderr = ''warn''\<rparr>
   \<and> fst (run_command (sim_env (Inr \<lparr>returncode = 1, stdout = ''out'', stderr = ''warn''\<rparr>))
            sim_config ''ls; ls /nowhere'' sim_started)
       = Inr ''out''
   \<and> \<lparr>levelname = WARNING, logger_name = LOG_FILE sim_config, msg = ''STDERR:\<newline>%s'',
       log_args = [PyStr ''warn''], exc_info = None\<rparr>
      \<in> set (emitted (snd (run_command
            (sim_env (Inr \<lparr>returncode = 1, stdout = ''out'', stderr = ''warn''\<rparr>))
            sim_config ''ls; ls /nowhere'' sim_started)))"
  using run_command_stdout_else_stderr
    [where os = "sim_env (Inr \<lparr>returncode = 1, stdout = ''out'', stderr = ''warn''\<rparr>)"
       and cfg = sim_config and command = "''ls; ls /nowhere''" and s = sim_started
       and result = "\<lparr>returncode = 1, stdout = ''out'', stderr = ''warn''\<rparr>"]
  by (simp add: sim_env_def)

text \<open>
  C2. If the launch of the shell process fails, \<^verbatim>\<open>subprocess.run\<close> raises an exception
  \<open>e\<close> that reports the failure; the exceptions it raises for that (\<^verbatim>\<open>OSError\<close>,
  \<^verbatim>\<open>ValueError\<close>, \<^verbatim>\<open>SubprocessError\<close>) are instances of \<^verbatim>\<open>Exception\<close>. Then \<^verbatim>\<open>run_command\<close>
  catches \<open>e\<close>, logs it at \<^verbatim>\<open>ERROR\<close> with the exception attached, and returns \<^verbatim>\<open>str(e)\<close>
  as its string result: nothing is raised to the caller.
\<close>

theorem run_command_spawn_failure_returned:
  assumes "subprocess_outcome os cfg command s = Inl e"
      and "issubclass_Exception (exc_class e)"
  shows "fst (run_command os cfg command s) = Inr (exc_str e)
         \<and> \<lparr>levelname = ERROR, logger_name = LOG_FILE cfg, msg = ''Command execution failed'',
             log_args = [], exc_info = Some e\<rparr>
            \<in> set (emitted (snd (run_command os cfg command s)))"
  using assms
  by (auto simp: run_command_def Let_def logger_defs split: prod.splits)

theorem run_command_spawn_failure_returned_witness:
  "subprocess_outcome
       (sim_env (Inl \<lparr>exc_class = OSError, exc_str = ''[Errno 12] Cannot allocate memory''\<rparr>))
       sim_config ''ls'' sim_started
     = Inl \<lparr>exc_class = OSError, exc_str = ''[Errno 12] Cannot allocate memory''\<rparr>
   \<and> issubclass_Exception OSError
   \<and> fst (run_command
            (sim_env (Inl \<lparr>exc_class = OSError, exc_str = ''[Errno 12] Cannot allocate memory''\<rparr>))
            sim_config ''ls'' sim_started)
       = Inr ''[Errno 12] Cannot allocate memory''
   \<and> \<lparr>levelname = ERROR, logger_name = LOG_FILE sim_config, msg = ''Command execution failed'',
       log_args = [],
       exc_info = Some \<lparr>exc_class = OSError, exc_str = ''[Errno 12] Cannot allocate memory''\<rparr>\<rparr>
      \<in> set (emitted (snd (run_command
            (sim_env (Inl \<lparr>exc_class = OSError, exc_str = ''[Errno 12] Cannot allocate memory''\<rparr>))
            sim_config ''ls'' sim_started)))"
  using run_command_spawn_failure_returned
    [where os = "sim_env (Inl \<lparr>exc_class = OSError,
                                 exc_str = ''[Errno 12] Cannot allocate memory''\<rparr>)"
       and cfg = sim_config and command = "''ls''" and s = sim_started
       and e = "\<lparr>exc_class = OSError, exc_str = ''[Errno 12] Cannot allocate memory''\<rparr>"]
  by (simp add: sim_env_def)

text \<open>
  C3. The result of \<^verbatim>\<open>run_command\<close> does not depend on the exit code of the process: two
  executions (any commands, in any environments and states) whose captured standard
  output and standard error are equal return equal results, whatever their exit codes.
  The exit code goes to the log, in the \<^verbatim>\<open>INFO\<close> record written when the command ends.
\<close>

theorem run_command_result_ignores_returncode:
  assumes "subprocess_outcome os cfg command s = Inr r"
      and "subprocess_outcome os' cfg' command' s' = Inr r'"
      and "stdout r = stdout r'"
      and "stderr r = stderr r'"
  shows "fst (run_command os cfg command s) = fst (run_command os' cfg' command' s')
         \<and> \<lparr>levelname = INFO, logger_name = LOG_FILE cfg,
             msg = ''Command finished | returncode=%s'',
             log_args = [PyInt (returncode r)], exc_info = None\<rparr>
            \<in> set (emitted (snd (run_command os cfg command s)))"
  using assms
  by (auto simp: run_command_def Let_def logger_defs split: prod.splits)

theorem run_command_result_ignores_returncode_witness:
  "subprocess_outcome (sim_env (Inr \<lparr>returncode = 0, stdout = ''a.txt'', stderr = []\<rparr>))
       sim_config ''ls'' sim_started
     = Inr \<lparr>returncode = 0, stdout = ''a.txt'', stderr = []\<rparr>
   \<and> subprocess_outcome (sim_env (Inr \<lparr>returncode = 2, stdout = ''a.txt'', stderr = []\<rparr>))
       sim_config ''ls; exit 2'' sim_started
     = Inr \<lparr>returncode = 2, stdout = ''a.txt'', stderr = []\<rparr>
   \<and> fst (run_command (sim_env (Inr \<lparr>returncode = 0, stdout = ''a.txt'', stderr = []\<rparr>))
            sim_config ''ls'' sim_started)
       = fst (run_command (sim_env (Inr \<lparr>returncode = 2, stdout = ''a.txt'', stderr = []\<rparr>))
            sim_config ''ls; exit 2'' sim_started)
   \<and> \<lparr>levelname = INFO, logger_name = LOG_FILE sim_config,
       msg = ''Command finished | returncode=%s'', log_args = [PyInt 0], exc_info = None\<rparr>
      \<in> set (emitted (snd (run_command
            (sim_env (Inr \<lparr>returncode = 0, stdout = ''a.txt'', stderr = []\<rparr>))
            sim_config ''ls'' sim_started)))"
  using run_command_result_ignores_returncode
    [where os = "sim_env (Inr \<lparr>returncode = 0, stdout = ''a.txt'', stderr = []\<rparr>)"
       and cfg = sim_config and command = "''ls''" and s = sim_started
       and r = "\<lparr>returncode = 0, stdout = ''a.txt'', stderr = []\<rparr>"
       and os' = "sim_env (Inr \<lparr>returncode = 2, stdout = ''a.txt'', stderr = []\<rparr>)"
       and cfg' = sim_config and command' = "''ls; exit 2''" and s' = sim_started
       and r' = "\<lparr>returncode = 2, stdout = ''a.txt'', stderr = []\<rparr>"]
  by (simp add: sim_env_def)






text \<open>
  C9. With no option on the command line the server binds host "0.0.0.0" and port
  8081. An occurrence of \<^verbatim>\<open>--host\<close> sets the host, an occurrence of \<^verbatim>\<open>--port\<close> whose
  value \<^verbatim>\<open>int\<close> accepts sets the port, and the two can be given together, in either
  order.
\<close>

theorem bind_defaults_and_overrides:
  "main_block py_int [] = Inr \<lparr>app_debug = True, bind_host = ''0.0.0.0'', bind_port = 8081\<rparr>
   \<and> main_block py_int [Opt_host h] = Inr \<lparr>app_debug = True, bind_host = h, bind_port = 8081\<rparr>
   \<and> (py_int p = Some n \<longrightarrow>
        main_block py_int [Opt_port p]
          = Inr \<lparr>app_debug = True, bind_host = ''0.0.0.0'', bind_port = n\<rparr>
        \<and> main_block py_int [Opt_host h, Opt_port p]
          = Inr \<lparr>app_debug = True, bind_host = h, bind_port = n\<rparr>
        \<and> main_block py_int [Opt_port p, Opt_host h]
          = Inr \<lparr>app_debug = True, bind_host = h, bind_port = n\<rparr>)"
  by (simp add: main_block_def)

theorem bind_defaults_and_overrides_witness:
  "int_of_digits ''9000'' = Some 9000
   \<and> main_block int_of_digits []
       = Inr \<lparr>app_debug = True, bind_host = ''0.0.0.0'', bind_port = 8081\<rparr>
   \<and> main_block int_of_digits [Opt_host ''127.0.0.1'', Opt_port ''9000'']
       = Inr \<lparr>app_debug = True, bind_host = ''127.0.0.1'', bind_port = 9000\<rparr>"
proof -
  have p: "int_of_digits ''9000'' = Some 9000"
    by (simp add: int_of_digits_def digit_value_def)
  from bind_defaults_and_overrides [of int_of_digits "''127.0.0.1''" "''9000''" 9000] p
  show ?thesis by blast
qed

text \<open>
  C10, as the code has it. \<^verbatim>\<open>run_command\<close> returns a string whenever
  \<^verbatim>\<open>subprocess.run\<close> returns or raises an instance of \<^verbatim>\<open>Exception\<close> (a failed launch, a
  failure of the capture or of the decoding of the output); in the second case the
  string is \<^verbatim>\<open>str(e)\<close>.
\<close>

theorem run_command_returns_unless_BaseException:
  assumes "\<forall>e. subprocess_outcome os cfg command s = Inl e
               \<longrightarrow> issubclass_Exception (exc_class e)"
  shows "\<exists>out. fst (run_command os cfg command s) = Inr out
           \<and> (\<forall>e. subprocess_outcome os cfg command s = Inl e \<longrightarrow> out = exc_str e)"
  using assms
  by (auto simp: run_command_def Let_def logger_defs split: prod.splits sum.splits)

theorem run_command_returns_unless_BaseException_witness:
  "subprocess_outcome
       (sim_env (Inl \<lparr>exc_class = UnicodeDecodeError, exc_str = ''invalid start byte''\<rparr>))
       sim_config ''cat /bin/ls'' sim_started
     = Inl \<lparr>exc_class = UnicodeDecodeError, exc_str = ''invalid start byte''\<rparr>
   \<and> issubclass_Exception UnicodeDecodeError
   \<and> fst (run_command
            (sim_env (Inl \<lparr>exc_class = UnicodeDecodeError, exc_str = ''invalid start byte''\<rparr>))
            sim_config ''cat /bin/ls'' sim_started)
       = Inr ''invalid start byte''"
proof -
  let ?os = "sim_env (Inl \<lparr>exc_class = UnicodeDecodeError, exc_str = ''invalid start byte''\<rparr>)"
  have o: "subprocess_outcome ?os sim_config ''cat /bin/ls'' sim_started
             = Inl \<lparr>exc_class = UnicodeDecodeError, exc_str = ''invalid start byte''\<rparr>"
    by (simp add: sim_env_def)
  then have h: "\<forall>e. subprocess_outcome ?os sim_config ''cat /bin/ls'' sim_started = Inl e
                  \<longrightarrow> issubclass_Exception (exc_class e)"
    by auto
  from run_command_returns_unless_BaseException [OF h] o h show ?thesis
    by auto
qed

text \<open>
  C10, as stated, fails: \<^verbatim>\<open>except Exception\<close> does not handle an exception that is not an
  instance of \<^verbatim>\<open>Exception\<close>. When \<^verbatim>\<open>subprocess.run\<close> raises \<^verbatim>\<open>KeyboardInterrupt\<close> (which it
  re-raises after waiting for the child), \<^verbatim>\<open>run_command\<close> returns no string: the
  exception leaves it.
\<close>

theorem run_command_KeyboardInterrupt_propagates:
  "fst (run_command (sim_env (Inl \<lparr>exc_class = KeyboardInterrupt, exc_str = []\<rparr>))
          sim_config ''sleep 600'' sim_started)
   = Inl \<lparr>exc_class = KeyboardInterrupt, exc_str = []\<rparr>"
  by (simp add: run_command_def sim_env_def Let_def logger_defs)

end
